theory Spec2Isabelle
  imports Complex_Main "HOL-Library.Word"
begin

section \<open>Values handed to the constructors\<close>

text \<open>
  The module \<^verbatim>\<open>movesense_sensor.py\<close> is dynamically typed: the constructor of
  \<^verbatim>\<open>MovesenseSensor\<close> takes whatever the caller passes and tells the cases apart at
  run time. The arguments are therefore modelled as a datatype of the Python values that
  matter here. A \<^verbatim>\<open>str\<close> is a list of characters; the model covers the code points
  below 256, which contain every character of the catalog and of a subscription path.
  Python's unbounded \<^verbatim>\<open>int\<close> is \<^typ>\<open>int\<close>.
\<close>

datatype MovesenseSensorType =
  ACCELEROMETER | GYROSCOPE | MAGNETOMETER | TEMPERATURE | ECG | HEART_RATE | IMU6 | IMU9

datatype MovesenseSamplingRate =
  R_13_HZ | R_26_HZ | R_52_HZ | R_104_HZ | R_208_HZ | R_416_HZ | R_833_HZ | R_1666_HZ
  | R_125_HZ | R_128_HZ | R_200_HZ | R_250_HZ | R_256_HZ | R_500_HZ | R_512_HZ

datatype pyval =
    PStr string
  | PInt int
  | PBytes "8 word list"
  | PSensorType MovesenseSensorType
  | PSamplingRate MovesenseSamplingRate
  | PSensorTypeClass
  | PSamplingRateClass

text \<open>
  Every exception of the module is a value. The source raises \<^verbatim>\<open>ValueError\<close> at five
  places; the constructors below keep the places apart: \<open>UnknownSensorKind\<close> is the
  \<^verbatim>\<open>raise\<close> at the end of \<^verbatim>\<open>from_string\<close>, \<open>UnknownSamplingRate\<close> the one at the
  end of \<^verbatim>\<open>from_int\<close>, \<open>MalformedPath\<close> the failed unpacking or the failed
  \<^verbatim>\<open>int(...)\<close> in \<^verbatim>\<open>from_path\<close>, \<open>MalformedBuffer\<close> the failed \<^verbatim>\<open>reshape\<close>,
  and \<open>IdOutOfRange\<close> the \<^verbatim>\<open>bytearray([1, self.id])\<close> whose second entry is not a
  byte. \<open>AttributeError\<close> and \<open>TypeError\<close> are Python's own.
\<close>

datatype error =
    UnknownSensorKind pyval
  | UnknownSamplingRate pyval
  | MalformedPath
  | MalformedBuffer
  | IdOutOfRange
  | AttributeError
  | TypeError

section \<open>The catalog of sensor kinds\<close>

text \<open>The first component of a member's tuple is its \<^verbatim>\<open>value\<close>, the second its \<^verbatim>\<open>axes\<close>.\<close>

fun type_value :: "MovesenseSensorType \<Rightarrow> string" where
  "type_value ACCELEROMETER = ''Acc''"
| "type_value GYROSCOPE = ''Gyro''"
| "type_value MAGNETOMETER = ''Magn''"
| "type_value TEMPERATURE = ''Temp''"
| "type_value ECG = ''ECG''"
| "type_value HEART_RATE = ''HR''"
| "type_value IMU6 = ''IMU6''"
| "type_value IMU9 = ''IMU9''"

fun axes :: "MovesenseSensorType \<Rightarrow> nat" where
  "axes ACCELEROMETER = 3"
| "axes GYROSCOPE = 3"
| "axes MAGNETOMETER = 3"
| "axes TEMPERATURE = 1"
| "axes ECG = 1"
| "axes HEART_RATE = 1"
| "axes IMU6 = 6"
| "axes IMU9 = 9"

text \<open>Iterating over an \<^verbatim>\<open>Enum\<close> class yields its members in definition order.\<close>

definition sensor_type_members :: "MovesenseSensorType list" where
  "sensor_type_members =
     [ACCELEROMETER, GYROSCOPE, MAGNETOMETER, TEMPERATURE, ECG, HEART_RATE, IMU6, IMU9]"

text \<open>
  \<^verbatim>\<open>member.value == value\<close> compares a \<^verbatim>\<open>str\<close> with the argument: it is true for an
  equal \<^verbatim>\<open>str\<close> and false for every value of another type, an enum member included.
\<close>

fun str_eq :: "string \<Rightarrow> pyval \<Rightarrow> bool" where
  "str_eq s (PStr t) = (s = t)"
| "str_eq s _ = False"

text \<open>
  \<^verbatim>\<open>value.startswith(p)\<close>: defined on a \<^verbatim>\<open>str\<close>; a \<^verbatim>\<open>bytes\<close> object refuses a
  \<^verbatim>\<open>str\<close> prefix with \<^verbatim>\<open>TypeError\<close>; an \<^verbatim>\<open>int\<close>, an enum member and an enum class
  have no such attribute.
\<close>

fun startswith :: "pyval \<Rightarrow> string \<Rightarrow> error + bool" where
  "startswith (PStr v) p = Inr (take (length p) v = p)"
| "startswith (PBytes b) p = Inl TypeError"
| "startswith _ p = Inl AttributeError"

text \<open>
  The loop of \<^verbatim>\<open>from_string\<close>. Each member is tried in turn with the three branches of
  the source in their order: equality, prefix, and the alias test, which sits inside the
  loop body.
\<close>

fun from_string_loop :: "pyval \<Rightarrow> MovesenseSensorType list \<Rightarrow> error + MovesenseSensorType" where
  "from_string_loop v [] = Inl (UnknownSensorKind v)"
| "from_string_loop v (m # ms) =
     (if str_eq (type_value m) v then Inr m
      else (case startswith v (type_value m) of
              Inl e \<Rightarrow> Inl e
            | Inr True \<Rightarrow> Inr m
            | Inr False \<Rightarrow>
                if v = PStr ''IMU'' then Inr IMU9 else from_string_loop v ms))"

definition from_string :: "pyval \<Rightarrow> error + MovesenseSensorType" where
  "from_string v = from_string_loop v sensor_type_members"

section \<open>The catalog of sampling rates\<close>

fun rate_value :: "MovesenseSamplingRate \<Rightarrow> int" where
  "rate_value R_13_HZ = 13"
| "rate_value R_26_HZ = 26"
| "rate_value R_52_HZ = 52"
| "rate_value R_104_HZ = 104"
| "rate_value R_208_HZ = 208"
| "rate_value R_416_HZ = 416"
| "rate_value R_833_HZ = 833"
| "rate_value R_1666_HZ = 1666"
| "rate_value R_125_HZ = 125"
| "rate_value R_128_HZ = 128"
| "rate_value R_200_HZ = 200"
| "rate_value R_250_HZ = 250"
| "rate_value R_256_HZ = 256"
| "rate_value R_500_HZ = 500"
| "rate_value R_512_HZ = 512"

definition sampling_rate_members :: "MovesenseSamplingRate list" where
  "sampling_rate_members =
     [R_13_HZ, R_26_HZ, R_52_HZ, R_104_HZ, R_208_HZ, R_416_HZ, R_833_HZ, R_1666_HZ,
      R_125_HZ, R_128_HZ, R_200_HZ, R_250_HZ, R_256_HZ, R_500_HZ, R_512_HZ]"

text \<open>
  \<^verbatim>\<open>member.value == value\<close> with an \<^verbatim>\<open>int\<close> on the left: true for the same
  \<^verbatim>\<open>int\<close>, false for a \<^verbatim>\<open>str\<close>, for \<^verbatim>\<open>bytes\<close> and for an enum member (the class is a
  plain \<^verbatim>\<open>Enum\<close>, not an \<^verbatim>\<open>IntEnum\<close>).
\<close>

fun int_eq :: "int \<Rightarrow> pyval \<Rightarrow> bool" where
  "int_eq n (PInt k) = (n = k)"
| "int_eq n _ = False"

fun from_int_loop :: "pyval \<Rightarrow> MovesenseSamplingRate list \<Rightarrow> error + MovesenseSamplingRate" where
  "from_int_loop v [] = Inl (UnknownSamplingRate v)"
| "from_int_loop v (m # ms) = (if int_eq (rate_value m) v then Inr m else from_int_loop v ms)"

definition from_int :: "pyval \<Rightarrow> error + MovesenseSamplingRate" where
  "from_int v = from_int_loop v sampling_rate_members"

section \<open>Text, integers and bytes\<close>

text \<open>\<^verbatim>\<open>str(n)\<close> of an \<^verbatim>\<open>int\<close>, which is what an f-string inserts: decimal digits, most
  significant first, with a minus sign for a negative number.\<close>

definition digit_char :: "nat \<Rightarrow> char" where
  "digit_char d = char_of (48 + d)"

fun str_nat :: "nat \<Rightarrow> string" where
  "str_nat n = (if n < 10 then [digit_char n] else str_nat (n div 10) @ [digit_char (n mod 10)])"

declare str_nat.simps [simp del]

definition str_int :: "int \<Rightarrow> string" where
  "str_int i = (if i < 0 then CHR ''-'' # str_nat (nat (- i)) else str_nat (nat i))"

text \<open>
  \<^verbatim>\<open>int(s)\<close> of a \<^verbatim>\<open>str\<close> in base ten: white space is stripped at both ends, one sign
  may lead, and the rest is a non-empty run of decimal digits in which single underscores
  may stand between two digits. Below code point 256 the white space characters that
  \<^verbatim>\<open>int\<close> skips are 9 to 13, 32, 133 and 160, and the only decimal digits are
  \<^verbatim>\<open>0\<close> to \<^verbatim>\<open>9\<close>. A text with more digits than the interpreter's limit, 4300 unless
  the program changes it, which this one does not, is refused as well; leading zeros count
  and underscores do not. \<open>None\<close> is the \<^verbatim>\<open>ValueError\<close>.
\<close>

definition int_max_str_digits :: nat where
  "int_max_str_digits = 4300"

definition is_space :: "char \<Rightarrow> bool" where
  "is_space c = ((of_char c :: nat) \<in> set [9, 10, 11, 12, 13, 32, 133, 160])"

definition is_digit :: "char \<Rightarrow> bool" where
  "is_digit c = (48 \<le> (of_char c :: nat) \<and> (of_char c :: nat) \<le> 57)"

definition digit_val :: "char \<Rightarrow> nat" where
  "digit_val c = of_char c - 48"

definition strip :: "string \<Rightarrow> string" where
  "strip s = rev (dropWhile is_space (rev (dropWhile is_space s)))"

fun more_digits :: "nat \<Rightarrow> string \<Rightarrow> nat option" where
  "more_digits acc [] = Some acc"
| "more_digits acc [c] = (if is_digit c then Some (acc * 10 + digit_val c) else None)"
| "more_digits acc (c # d # cs) =
     (if is_digit c then more_digits (acc * 10 + digit_val c) (d # cs)
      else if c = CHR ''_'' \<and> is_digit d then more_digits (acc * 10 + digit_val d) cs
      else None)"

definition digits_value :: "string \<Rightarrow> nat option" where
  "digits_value s =
     (case s of [] \<Rightarrow> None
      | c # cs \<Rightarrow>
          if int_max_str_digits < length (filter is_digit s) then None
          else if is_digit c then more_digits (digit_val c) cs
          else None)"

definition py_int :: "string \<Rightarrow> int option" where
  "py_int s =
     (case strip s of
        [] \<Rightarrow> None
      | c # cs \<Rightarrow>
          if c = CHR ''-'' then map_option (\<lambda>n. - int n) (digits_value cs)
          else if c = CHR ''+'' then map_option int (digits_value cs)
          else map_option int (digits_value (c # cs)))"

text \<open>\<^verbatim>\<open>s.split(sep)\<close> with a one-character separator: empty segments are kept, and a
  text without the separator is one segment.\<close>

fun split_on :: "char \<Rightarrow> string \<Rightarrow> string list" where
  "split_on sep [] = [[]]"
| "split_on sep (c # cs) =
     (if c = sep then [] # split_on sep cs
      else (case split_on sep cs of
              [] \<Rightarrow> [[c]]
            | seg # segs \<Rightarrow> (c # seg) # segs))"

text \<open>\<^verbatim>\<open>bytearray(text, "utf-8")\<close>: one byte for a code point below 128, two bytes for
  the others below 256.\<close>

definition utf8_char :: "char \<Rightarrow> 8 word list" where
  "utf8_char c =
     (let n = (of_char c :: nat)
      in if n < 128 then [of_nat n] else [of_nat (192 + n div 64), of_nat (128 + n mod 64)])"

definition utf8 :: "string \<Rightarrow> 8 word list" where
  "utf8 s = concat (map utf8_char s)"

section \<open>The sensor\<close>

text \<open>
  One entry of \<^verbatim>\<open>self.data\<close> is a dictionary with the four keys \<^verbatim>\<open>timestamp\<close>,
  \<^verbatim>\<open>device\<close>, \<^verbatim>\<open>sensor_type\<close> and \<^verbatim>\<open>sensor_data\<close>. Time stamps and readings are
  floating-point numbers in the source; the model computes with them as real numbers, so
  that every statement below is about the arithmetic the code asks for, before rounding.
\<close>

record sample =
  timestamp :: real
  device :: string
  sample_sensor_type :: string
  sensor_data :: "real list"

text \<open>
  The attributes of a \<^verbatim>\<open>MovesenseSensor\<close>. The two catalog attributes hold whatever the
  constructor stored, hence \<^typ>\<open>pyval\<close>.
\<close>

record MovesenseSensor =
  sensor_id :: int
  sensor_type :: pyval
  sampling_rate :: pyval
  path :: "8 word list"
  data :: "sample list"

text \<open>
  \<^verbatim>\<open>x if x is C else C.from_...(x)\<close>: the test is identity with the class object itself,
  so it holds for the class and for nothing else, in particular for no member of it.
\<close>

definition choose_sensor_type :: "pyval \<Rightarrow> error + pyval" where
  "choose_sensor_type v =
     (if v = PSensorTypeClass then Inr v
      else (case from_string v of Inl e \<Rightarrow> Inl e | Inr m \<Rightarrow> Inr (PSensorType m)))"

definition choose_sampling_rate :: "pyval \<Rightarrow> error + pyval" where
  "choose_sampling_rate v =
     (if v = PSamplingRateClass then Inr v
      else (case from_int v of Inl e \<Rightarrow> Inl e | Inr m \<Rightarrow> Inr (PSamplingRate m)))"

text \<open>The text an f-string inserts for \<^verbatim>\<open>{x.value}\<close>: only an enum member has the
  attribute.\<close>

fun format_value :: "pyval \<Rightarrow> error + string" where
  "format_value (PSensorType m) = Inr (type_value m)"
| "format_value (PSamplingRate m) = Inr (str_int (rate_value m))"
| "format_value _ = Inl AttributeError"

text \<open>
  Lines 83 and 84: \<^verbatim>\<open>bytearray([1, self.id])\<close> is evaluated first and refuses an entry
  outside \<^verbatim>\<open>range(0, 256)\<close>; then the f-string is built and encoded.
\<close>

definition subscription_path :: "int \<Rightarrow> pyval \<Rightarrow> pyval \<Rightarrow> error + 8 word list" where
  "subscription_path i st sr =
     (if i < 0 \<or> 255 < i then Inl IdOutOfRange
      else (case format_value st of
              Inl e \<Rightarrow> Inl e
            | Inr tag \<Rightarrow>
                (case format_value sr of
                   Inl e \<Rightarrow> Inl e
                 | Inr rate \<Rightarrow>
                     Inr ([1, word_of_int i] @ utf8 (''/Meas/'' @ tag @ ''/'' @ rate)))))"

text \<open>
  \<^verbatim>\<open>__init__\<close>. The class attribute \<^verbatim>\<open>id_counter\<close> is the only state shared between
  sensors; it is passed in and returned. An exception leaves the counter as it is at that
  moment: unchanged when a catalog lookup fails, already incremented when building the
  path fails.
\<close>

definition MovesenseSensor_init :: "pyval \<Rightarrow> pyval \<Rightarrow> int \<Rightarrow> int \<times> (error + MovesenseSensor)" where
  "MovesenseSensor_init sensor_type_arg sampling_rate_arg id_counter =
     (case choose_sensor_type sensor_type_arg of
        Inl e \<Rightarrow> (id_counter, Inl e)
      | Inr st \<Rightarrow>
          (case choose_sampling_rate sampling_rate_arg of
             Inl e \<Rightarrow> (id_counter, Inl e)
           | Inr sr \<Rightarrow>
               (id_counter + 1,
                case subscription_path id_counter st sr of
                  Inl e \<Rightarrow> Inl e
                | Inr p \<Rightarrow>
                    Inr \<lparr>sensor_id = id_counter, sensor_type = st, sampling_rate = sr,
                         path = p, data = []\<rparr>)))"

text \<open>
  \<^verbatim>\<open>from_path\<close>. \<^verbatim>\<open>path.split("/")\<close> needs a \<^verbatim>\<open>str\<close>: \<^verbatim>\<open>bytes\<close> refuse the
  \<^verbatim>\<open>str\<close> separator, other values have no \<^verbatim>\<open>split\<close>. The unpacking into four names
  fails unless there are exactly four segments, and \<^verbatim>\<open>int(sampling_rate)\<close> is evaluated
  before the constructor runs.
\<close>

definition from_path :: "pyval \<Rightarrow> int \<Rightarrow> int \<times> (error + MovesenseSensor)" where
  "from_path p id_counter =
     (case p of
        PStr s \<Rightarrow>
          (case split_on CHR ''/'' s of
             [a, b, sensor_type_seg, sampling_rate_seg] \<Rightarrow>
               (case py_int sampling_rate_seg of
                  None \<Rightarrow> (id_counter, Inl MalformedPath)
                | Some n \<Rightarrow> MovesenseSensor_init (PStr sensor_type_seg) (PInt n) id_counter)
           | _ \<Rightarrow> (id_counter, Inl MalformedPath))
      | PBytes b \<Rightarrow> (id_counter, Inl TypeError)
      | _ \<Rightarrow> (id_counter, Inl AttributeError))"

text \<open>A sequence of constructions in one process: each request is a call of the
  constructor or of \<^verbatim>\<open>from_path\<close>, and the counter is threaded through them.\<close>

datatype request = Construct pyval pyval | FromPath pyval

fun perform :: "request \<Rightarrow> int \<Rightarrow> int \<times> (error + MovesenseSensor)" where
  "perform (Construct st sr) c = MovesenseSensor_init st sr c"
| "perform (FromPath p) c = from_path p c"

fun construct_all :: "request list \<Rightarrow> int \<Rightarrow> (error + MovesenseSensor) list" where
  "construct_all [] c = []"
| "construct_all (r # rs) c = (case perform r c of (c', res) \<Rightarrow> res # construct_all rs c')"

fun created_ids :: "(error + MovesenseSensor) list \<Rightarrow> int list" where
  "created_ids [] = []"
| "created_ids (Inl e # rs) = created_ids rs"
| "created_ids (Inr s # rs) = sensor_id s # created_ids rs"

fun succeeded :: "error + MovesenseSensor \<Rightarrow> bool" where
  "succeeded (Inr s) = True"
| "succeeded (Inl e) = False"

section \<open>Decoding a notification\<close>

text \<open>
  \<^verbatim>\<open>np.array(data).reshape(-1, axes)\<close>: the rows are consecutive runs of \<open>axes\<close>
  entries; a length that \<open>axes\<close> does not divide is refused.
\<close>

fun rows_of :: "nat \<Rightarrow> 'a list \<Rightarrow> 'a list list" where
  "rows_of a xs = (if a = 0 \<or> xs = [] then [] else take a xs # rows_of a (drop a xs))"

declare rows_of.simps [simp del]

definition reshape :: "nat \<Rightarrow> 'a list \<Rightarrow> error + 'a list list" where
  "reshape a xs = (if a = 0 \<or> length xs mod a \<noteq> 0 then Inl MalformedBuffer else Inr (rows_of a xs))"

text \<open>
  \<^verbatim>\<open>np.linspace(start, stop, num)\<close> with the end point included: \<open>num\<close> values, the
  first \<open>start\<close>, each next one \<open>(stop - start) / (num - 1)\<close> further, the last set to
  \<open>stop\<close>; a single value is \<open>start\<close>.
\<close>

definition linspace :: "real \<Rightarrow> real \<Rightarrow> nat \<Rightarrow> real list" where
  "linspace start stop num =
     (if num = 0 then []
      else if num = 1 then [start]
      else map (\<lambda>i. start + real i * ((stop - start) / real (num - 1))) [0..<num - 1] @ [stop])"

text \<open>The loop over \<^verbatim>\<open>enumerate(data)\<close>: one sample per row, appended to the log.\<close>

fun append_samples :: "real list \<Rightarrow> string \<Rightarrow> string \<Rightarrow> (nat \<times> real list) list \<Rightarrow> sample list \<Rightarrow> sample list" where
  "append_samples ts dev tag [] entries = entries"
| "append_samples ts dev tag ((i, row) # rest) entries =
     append_samples ts dev tag rest
       (entries @ [\<lparr>timestamp = ts ! i, device = dev, sample_sensor_type = tag, sensor_data = row\<rparr>])"

text \<open>
  \<^verbatim>\<open>notification_handler\<close>. The reading of the wall clock is the argument \<open>now\<close>. The
  result is the sensor after the call together with the exception, if one was raised.
  The time stamps are as many as the rows, so \<^verbatim>\<open>local_timestamp[i]\<close> is always in
  range.
\<close>

definition notification_handler ::
    "real \<Rightarrow> MovesenseSensor \<Rightarrow> string \<Rightarrow> real list \<Rightarrow> MovesenseSensor \<times> error option" where
  "notification_handler now self device_address buf =
     (case sensor_type self of
        PSensorType k \<Rightarrow>
          (case reshape (axes k) buf of
             Inl e \<Rightarrow> (self, Some e)
           | Inr rows \<Rightarrow>
               (case sampling_rate self of
                  PSamplingRate r \<Rightarrow>
                    (let T_s = 1 / real_of_int (rate_value r);
                         n = length rows;
                         local_timestamp = map (\<lambda>x. x + now) (linspace (- T_s * real n) 0 n)
                     in (self\<lparr>data := append_samples local_timestamp device_address
                                         (type_value k) (enumerate 0 rows) (data self)\<rparr>,
                         None))
                | _ \<Rightarrow> (self, Some AttributeError)))
      | _ \<Rightarrow> (self, Some AttributeError))"

section \<open>The wording of the specification\<close>

text \<open>
  The lookup by tag as the specification words it: the first kind whose tag equals the
  input; failing that, the first kind whose tag is a prefix of the input; failing that,
  the alias; failing that, an error.
\<close>

definition lookup_by_tag :: "string \<Rightarrow> error + MovesenseSensorType" where
  "lookup_by_tag tag =
     (case find (\<lambda>K. type_value K = tag) sensor_type_members of
        Some K \<Rightarrow> Inr K
      | None \<Rightarrow>
          (case find (\<lambda>K. take (length (type_value K)) tag = type_value K) sensor_type_members of
             Some K \<Rightarrow> Inr K
           | None \<Rightarrow> if tag = ''IMU'' then Inr IMU9 else Inl (UnknownSensorKind (PStr tag))))"

section \<open>The catalog lookups\<close>

lemma from_string_own_tag: "from_string (PStr (type_value K)) = Inr K"
  by (cases K) (simp_all add: from_string_def sensor_type_members_def)

lemma from_int_own_value: "from_int (PInt (rate_value R)) = Inr R"
  by (cases R) (simp_all add: from_int_def sampling_rate_members_def)

text \<open>
  C8. Looking a kind up by its own wire tag gives that kind back, and looking a rate up by
  its own numeric value gives that rate back.
\<close>

theorem lookups_invert_projections:
  "from_string (PStr (type_value K)) = Inr K \<and> from_int (PInt (rate_value R)) = Inr R"
  by (simp add: from_string_own_tag from_int_own_value)

lemma from_string_loop_find:
  "tag \<noteq> ''IMU'' \<Longrightarrow>
   from_string_loop (PStr tag) ms =
     (case find (\<lambda>K. type_value K = tag \<or> take (length (type_value K)) tag = type_value K) ms of
        Some K \<Rightarrow> Inr K
      | None \<Rightarrow> Inl (UnknownSensorKind (PStr tag)))"
  by (induction ms) simp_all

lemma lookup_own_tag: "lookup_by_tag (type_value K) = Inr K"
  by (cases K) (simp_all add: lookup_by_tag_def sensor_type_members_def)

lemma from_string_IMU: "from_string (PStr ''IMU'') = Inr IMU9"
  by (simp add: from_string_def sensor_type_members_def)

lemma lookup_IMU: "lookup_by_tag ''IMU'' = Inr IMU9"
  by (simp add: lookup_by_tag_def sensor_type_members_def)

lemma from_string_lookup: "from_string (PStr tag) = lookup_by_tag tag"
proof (cases "\<exists>K. type_value K = tag")
  case True
  then obtain K where "tag = type_value K" by auto
  then show ?thesis by (simp add: lookup_own_tag from_string_own_tag)
next
  case False
  then have ne: "\<And>K. (type_value K = tag) = False" by simp
  show ?thesis
  proof (cases "tag = ''IMU''")
    case True
    then show ?thesis by (simp add: from_string_IMU lookup_IMU)
  next
    case False
    have "find (\<lambda>K. type_value K = tag) sensor_type_members = None"
      by (simp add: find_None_iff ne)
    then show ?thesis using False
      by (simp add: from_string_def lookup_by_tag_def from_string_loop_find ne)
  qed
qed

text \<open>
  C4. On every text, \<^verbatim>\<open>from_string\<close> returns what the specification's wording of the
  lookup returns (first equal tag, else first tag that is a prefix, else the alias, else
  the error carrying the text), and the alias \<^verbatim>\<open>IMU\<close> resolves to the nine-axis kind.
\<close>

theorem from_string_is_lookup_by_tag:
  "from_string (PStr tag) = lookup_by_tag tag \<and> from_string (PStr ''IMU'') = Inr IMU9"
  by (rule conjI [OF from_string_lookup from_string_IMU])

section \<open>Construction with typed values\<close>

lemma init_typed_kind: "MovesenseSensor_init (PSensorType K) sr c = (c, Inl AttributeError)"
  by (simp add: MovesenseSensor_init_def choose_sensor_type_def from_string_def sensor_type_members_def)

lemma from_int_loop_member: "from_int_loop (PSamplingRate R) ms = Inl (UnknownSamplingRate (PSamplingRate R))"
  by (induction ms) simp_all

lemma init_typed_rate:
  "MovesenseSensor_init (PStr (type_value K)) (PSamplingRate R) c = (c, Inl (UnknownSamplingRate (PSamplingRate R)))"
  by (simp add: MovesenseSensor_init_def choose_sensor_type_def choose_sampling_rate_def from_string_own_tag
      from_int_def from_int_loop_member)

text \<open>
  C3. A constructor call with an already typed catalog value does not succeed. The source
  tests \<^verbatim>\<open>sensor_type is MovesenseSensorType\<close>, identity with the class, which no member
  satisfies, although the comment above it announces that enums are accepted. The member
  is handed to \<^verbatim>\<open>from_string\<close>, whose \<^verbatim>\<open>startswith\<close> call raises; a typed rate is
  handed to \<^verbatim>\<open>from_int\<close>, which finds no equal integer. Evaluated at a typed gyroscope
  kind and a typed 208 Hz rate, with the counter at 0:
\<close>

theorem typed_arguments_rejected:
  "MovesenseSensor_init (PSensorType GYROSCOPE) (PSamplingRate R_208_HZ) 0 = (0, Inl AttributeError)
   \<and> MovesenseSensor_init (PStr ''Gyro'') (PSamplingRate R_208_HZ) 0 = (0, Inl (UnknownSamplingRate (PSamplingRate R_208_HZ)))"
  using init_typed_kind [of GYROSCOPE "PSamplingRate R_208_HZ" 0] init_typed_rate [of GYROSCOPE R_208_HZ 0]
  by simp

section \<open>The subscription path\<close>

lemma is_digit_digit_char: "d < 10 \<Longrightarrow> is_digit (digit_char d)"
  by (simp add: is_digit_def digit_char_def)

lemma str_nat_digits: "c \<in> set (str_nat n) \<Longrightarrow> is_digit c"
proof (induction n rule: str_nat.induct)
  case (1 n)
  show ?case
  proof (cases "n < 10")
    case True
    with 1(2) show ?thesis by (simp add: str_nat.simps [of n] is_digit_digit_char)
  next
    case False
    with 1 show ?thesis by (auto simp add: str_nat.simps [of n] is_digit_digit_char)
  qed
qed

lemma utf8_ascii: "(\<And>c. c \<in> set s \<Longrightarrow> (of_char c :: nat) < 128) \<Longrightarrow> utf8 s = map (\<lambda>c. of_nat (of_char c)) s"
  by (induction s) (simp_all add: utf8_def utf8_char_def)

lemma type_value_ascii: "c \<in> set (type_value K) \<Longrightarrow> (of_char c :: nat) < 128"
  by (cases K) auto

lemma is_digit_ascii: "is_digit c \<Longrightarrow> (of_char c :: nat) < 128"
  by (simp add: is_digit_def)

lemma rate_text_digits: "c \<in> set (str_int (rate_value R)) \<Longrightarrow> is_digit c"
  by (cases R) (auto simp add: str_int_def dest: str_nat_digits)

lemma path_text_ascii: "c \<in> set (''/Meas/'' @ type_value K @ ''/'' @ str_int (rate_value R)) \<Longrightarrow> (of_char c :: nat) < 128"
  by (auto dest: type_value_ascii rate_text_digits [THEN is_digit_ascii])

lemma subscription_path_typed:
  assumes "0 \<le> i" "i \<le> 255"
  shows "subscription_path i (PSensorType K) (PSamplingRate R) =
     Inr (1 # word_of_int i # map (\<lambda>c. of_nat (of_char c)) (''/Meas/'' @ type_value K @ ''/'' @ str_int (rate_value R)))"
proof -
  have "utf8 (''/Meas/'' @ type_value K @ ''/'' @ str_int (rate_value R))
      = map (\<lambda>c. of_nat (of_char c)) (''/Meas/'' @ type_value K @ ''/'' @ str_int (rate_value R))"
    by (rule utf8_ascii) (rule path_text_ascii)
  with assms show ?thesis by (simp add: subscription_path_def)
qed

lemma subscription_path_large: "255 < i \<Longrightarrow> subscription_path i st sr = Inl IdOutOfRange"
  by (simp add: subscription_path_def)

lemma init_succeeds:
  assumes "from_string (PStr t) = Inr K" "from_int (PInt n) = Inr R" "0 \<le> c" "c \<le> 255"
  shows "MovesenseSensor_init (PStr t) (PInt n) c =
      (c + 1, Inr \<lparr>sensor_id = c, sensor_type = PSensorType K, sampling_rate = PSamplingRate R,
                    path = 1 # word_of_int c #
                      map (\<lambda>ch. of_nat (of_char ch))
                        (''/Meas/'' @ type_value K @ ''/'' @ str_int (rate_value R)),
                    data = []\<rparr>)"
  using assms(1,2) subscription_path_typed [OF assms(3,4), of K R]
  by (simp add: MovesenseSensor_init_def choose_sensor_type_def choose_sampling_rate_def)

lemma init_id_out_of_range:
  assumes "from_string (PStr t) = Inr K" "from_int (PInt n) = Inr R" "255 < c"
  shows "MovesenseSensor_init (PStr t) (PInt n) c = (c + 1, Inl IdOutOfRange)"
  using assms
  by (simp add: MovesenseSensor_init_def choose_sensor_type_def choose_sampling_rate_def
      subscription_path_def)

lemma rate_texts:
  "map (\<lambda>R. str_int (rate_value R)) sampling_rate_members =
     [''13'', ''26'', ''52'', ''104'', ''208'', ''416'', ''833'', ''1666'',
      ''125'', ''128'', ''200'', ''250'', ''256'', ''500'', ''512'']"
  by code_simp

text \<open>
  C7. The encoding is the attribute \<^verbatim>\<open>path\<close> that the constructor stores. When the two
  lookups succeed and the id taken from the counter is from 0 to 255, the constructor
  returns a sensor whose path is the byte 1, the id as a byte, and then one byte per
  character of the text \<^verbatim>\<open>/Meas/<tag>/<rate>\<close>, the byte being the character's code; the
  rates are rendered as the decimal texts 13, 26, 52, 104, 208, 416, 833, 1666, 125, 128,
  200, 250, 256, 500 and 512. With an id above 255 the constructor fails with
  \<open>IdOutOfRange\<close>. The same holds of the two lines that build the path, taken alone.
\<close>

theorem subscription_path_bytes:
  "(from_string (PStr t) = Inr K \<and> from_int (PInt n) = Inr R \<and> 0 \<le> c \<and> c \<le> 255 \<longrightarrow>
      MovesenseSensor_init (PStr t) (PInt n) c =
        (c + 1, Inr \<lparr>sensor_id = c, sensor_type = PSensorType K, sampling_rate = PSamplingRate R,
                      path = 1 # word_of_int c #
                        map (\<lambda>ch. of_nat (of_char ch))
                          (''/Meas/'' @ type_value K @ ''/'' @ str_int (rate_value R)),
                      data = []\<rparr>))
   \<and> (from_string (PStr t) = Inr K \<and> from_int (PInt n) = Inr R \<and> 255 < c \<longrightarrow>
        MovesenseSensor_init (PStr t) (PInt n) c = (c + 1, Inl IdOutOfRange))
   \<and> (0 \<le> i \<and> i \<le> 255 \<longrightarrow>
        subscription_path i (PSensorType K) (PSamplingRate R) =
          Inr (1 # word_of_int i #
               map (\<lambda>ch. of_nat (of_char ch)) (''/Meas/'' @ type_value K @ ''/'' @ str_int (rate_value R))))
   \<and> (255 < i \<longrightarrow> subscription_path i st sr = Inl IdOutOfRange)
   \<and> map (\<lambda>R. str_int (rate_value R)) sampling_rate_members =
        [''13'', ''26'', ''52'', ''104'', ''208'', ''416'', ''833'', ''1666'',
         ''125'', ''128'', ''200'', ''250'', ''256'', ''500'', ''512'']"
  using init_succeeds [of t K n R c] init_id_out_of_range [of t K n R c]
    subscription_path_typed [of i K R] subscription_path_large [of i st sr] rate_texts
  by blast

lemma str_int_208: "str_int 208 = ''208''"
  by code_simp

theorem subscription_path_bytes_witness:
  "from_string (PStr ''Gyro'') = Inr GYROSCOPE \<and> from_int (PInt 208) = Inr R_208_HZ
   \<and> (0::int) \<le> 5 \<and> (5::int) \<le> 255
   \<and> MovesenseSensor_init (PStr ''Gyro'') (PInt 208) 5 =
       (6, Inr \<lparr>sensor_id = 5, sensor_type = PSensorType GYROSCOPE,
                sampling_rate = PSamplingRate R_208_HZ,
                path = [0x01, 0x05, 0x2F, 0x4D, 0x65, 0x61, 0x73, 0x2F, 0x47, 0x79, 0x72, 0x6F,
                        0x2F, 0x32, 0x30, 0x38],
                data = []\<rparr>)
   \<and> subscription_path 5 (PSensorType GYROSCOPE) (PSamplingRate R_208_HZ) =
       Inr [0x01, 0x05, 0x2F, 0x4D, 0x65, 0x61, 0x73, 0x2F, 0x47, 0x79, 0x72, 0x6F, 0x2F, 0x32, 0x30, 0x38]
   \<and> (255::int) < 256
   \<and> MovesenseSensor_init (PStr ''Gyro'') (PInt 208) 256 = (257, Inl IdOutOfRange)
   \<and> subscription_path 256 (PSensorType GYROSCOPE) (PSamplingRate R_208_HZ) = Inl IdOutOfRange"
proof -
  have k: "from_string (PStr ''Gyro'') = Inr GYROSCOPE"
    using from_string_own_tag [of GYROSCOPE] by simp
  have r: "from_int (PInt 208) = Inr R_208_HZ"
    using from_int_own_value [of R_208_HZ] by simp
  from k r
    subscription_path_bytes [of "''Gyro''" GYROSCOPE 208 R_208_HZ 5 5]
    subscription_path_bytes [of "''Gyro''" GYROSCOPE 208 R_208_HZ 256 256
      "PSensorType GYROSCOPE" "PSamplingRate R_208_HZ"]
  show ?thesis by (simp add: str_int_208)
qed

section \<open>Reconstruction from a path\<close>

lemma split_on_no_sep: "sep \<notin> set s \<Longrightarrow> split_on sep s = [s]"
  by (induction s) auto

lemma split_on_segment: "sep \<notin> set s \<Longrightarrow> split_on sep (s @ sep # t) = s # split_on sep t"
  by (induction s) auto

lemma slash_not_in_tag: "CHR ''/'' \<notin> set (type_value K)"
  by (cases K) simp_all

lemma slash_not_digit: "\<not> is_digit CHR ''/''"
  by (simp add: is_digit_def)

lemma slash_not_in_rate: "CHR ''/'' \<notin> set (str_int (rate_value R))"
  using rate_text_digits slash_not_digit by blast

lemma split_path_text:
  assumes "CHR ''/'' \<notin> set pre"
  shows "split_on CHR ''/'' (pre @ ''/Meas/'' @ type_value K @ ''/'' @ str_int (rate_value R))
       = [pre, ''Meas'', type_value K, str_int (rate_value R)]"
proof -
  have 1: "split_on CHR ''/'' (type_value K @ CHR ''/'' # str_int (rate_value R))
      = [type_value K, str_int (rate_value R)]"
    by (simp add: split_on_segment slash_not_in_tag split_on_no_sep slash_not_in_rate)
  have 2: "split_on CHR ''/'' (''Meas'' @ CHR ''/'' # type_value K @ CHR ''/'' # str_int (rate_value R))
      = ''Meas'' # split_on CHR ''/'' (type_value K @ CHR ''/'' # str_int (rate_value R))"
    by (rule split_on_segment) simp
  have 3: "split_on CHR ''/'' (pre @ CHR ''/'' # (''Meas'' @ CHR ''/'' # type_value K @ CHR ''/'' # str_int (rate_value R)))
      = pre # split_on CHR ''/'' (''Meas'' @ CHR ''/'' # type_value K @ CHR ''/'' # str_int (rate_value R))"
    by (rule split_on_segment) (rule assms)
  from 1 2 3 show ?thesis by simp
qed

lemma py_int_rate_text: "py_int (str_int (rate_value R)) = Some (rate_value R)"
  by (cases R; hypsubst; code_simp)

lemma from_path_wrong_count:
  "length (split_on CHR ''/'' s) \<noteq> 4 \<Longrightarrow> from_path (PStr s) c = (c, Inl MalformedPath)"
  by (auto simp add: from_path_def split: list.splits)

lemma from_path_four:
  "split_on CHR ''/'' s = [a, b, t, r] \<Longrightarrow>
   from_path (PStr s) c =
     (case py_int r of None \<Rightarrow> (c, Inl MalformedPath)
      | Some n \<Rightarrow> MovesenseSensor_init (PStr t) (PInt n) c)"
  by (simp add: from_path_def)

lemma from_path_bytes: "from_path (PBytes bs) c = (c, Inl TypeError)"
  by (simp add: from_path_def)

lemma init_kind_fails:
  "from_string (PStr t) = Inl e \<Longrightarrow> MovesenseSensor_init (PStr t) sr c = (c, Inl e)"
  by (simp add: MovesenseSensor_init_def choose_sensor_type_def)

lemma init_rate_fails:
  "from_string (PStr t) = Inr K \<Longrightarrow> from_int (PInt n) = Inl e \<Longrightarrow>
   MovesenseSensor_init (PStr t) (PInt n) c = (c, Inl e)"
  by (simp add: MovesenseSensor_init_def choose_sensor_type_def choose_sampling_rate_def)

lemma from_path_of_text:
  assumes c: "0 \<le> c" "c \<le> 255" and pre: "CHR ''/'' \<notin> set pre"
  shows "from_path (PStr (pre @ ''/Meas/'' @ type_value K @ ''/'' @ str_int (rate_value R))) c =
      (c + 1, Inr \<lparr>sensor_id = c, sensor_type = PSensorType K, sampling_rate = PSamplingRate R,
                    path = 1 # word_of_int c #
                      map (\<lambda>ch. of_nat (of_char ch))
                        (''/Meas/'' @ type_value K @ ''/'' @ str_int (rate_value R)),
                    data = []\<rparr>)"
proof -
  have "from_path (PStr (pre @ ''/Meas/'' @ type_value K @ ''/'' @ str_int (rate_value R))) c =
      (case py_int (str_int (rate_value R)) of
         None \<Rightarrow> (c, Inl MalformedPath)
       | Some n \<Rightarrow> MovesenseSensor_init (PStr (type_value K)) (PInt n) c)"
    by (rule from_path_four [OF split_path_text [OF pre]])
  then have "from_path (PStr (pre @ ''/Meas/'' @ type_value K @ ''/'' @ str_int (rate_value R))) c =
      MovesenseSensor_init (PStr (type_value K)) (PInt (rate_value R)) c"
    by (simp add: py_int_rate_text)
  with init_succeeds [OF from_string_own_tag from_int_own_value c] show ?thesis by simp
qed

lemma encoding_is_prefix_and_text:
  assumes "0 \<le> i" "i \<le> 255"
  shows "subscription_path i (PSensorType K) (PSamplingRate R) =
      Inr ([1, word_of_int i] @ utf8 (''/Meas/'' @ type_value K @ ''/'' @ str_int (rate_value R)))"
  using assms by (simp add: subscription_path_def)

lemma from_path_gyro_208:
  "from_path (PStr ''/Meas/Gyro/208'') 0 =
      (1, Inr \<lparr>sensor_id = 0, sensor_type = PSensorType GYROSCOPE,
               sampling_rate = PSamplingRate R_208_HZ,
               path = [1, 0, 47, 77, 101, 97, 115, 47, 71, 121, 114, 111, 47, 50, 48, 56],
               data = []\<rparr>)"
  using from_path_of_text [of 0 "[]" GYROSCOPE R_208_HZ] by (simp add: str_int_208)

lemma from_path_gyro_999:
  "from_path (PStr ''/Meas/Gyro/999'') 0 = (0, Inl (UnknownSamplingRate (PInt 999)))"
proof -
  have s: "split_on CHR ''/'' ''/Meas/Gyro/999'' = [[], ''Meas'', ''Gyro'', ''999'']" by simp
  have n: "py_int ''999'' = Some 999" by code_simp
  have r: "from_int (PInt 999) = Inl (UnknownSamplingRate (PInt 999))"
    by (simp add: from_int_def sampling_rate_members_def)
  have "from_path (PStr ''/Meas/Gyro/999'') 0 = MovesenseSensor_init (PStr ''Gyro'') (PInt 999) 0"
    by (simp add: from_path_four [OF s] n)
  with init_rate_fails [OF _ r, of "''Gyro''" GYROSCOPE 0] from_string_own_tag [of GYROSCOPE]
  show ?thesis by simp
qed

lemma py_int_too_many_digits:
  assumes "int_max_str_digits < n"
  shows "py_int (replicate n CHR ''1'') = None"
proof -
  from assms obtain m where n: "n = Suc m" by (cases n) simp_all
  have d: "is_digit CHR ''1''" by (simp add: is_digit_def)
  have sp: "\<not> is_space CHR ''1''" by (simp add: is_space_def)
  have dw: "dropWhile is_space (replicate k CHR ''1'') = replicate k CHR ''1''" for k
    using sp by (cases k) simp_all
  have "strip (replicate n CHR ''1'') = replicate n CHR ''1''"
    by (simp add: strip_def dw sp)
  then have st: "strip (replicate n CHR ''1'') = CHR ''1'' # replicate m CHR ''1''"
    by (simp add: n)
  have "length (filter is_digit (CHR ''1'' # replicate m CHR ''1'')) = n"
    using d by (simp add: n)
  with assms have "digits_value (CHR ''1'' # replicate m CHR ''1'') = None"
    by (simp add: digits_value_def)
  with st show ?thesis by (simp add: py_int_def)
qed

lemma split_many_digits:
  "split_on CHR ''/'' (''/Meas/Gyro/'' @ replicate n CHR ''1'') = [[], ''Meas'', ''Gyro'', replicate n CHR ''1'']"
proof -
  have "CHR ''/'' \<notin> set (replicate n CHR ''1'')" by simp
  then have "split_on CHR ''/'' (replicate n CHR ''1'') = [replicate n CHR ''1'']"
    by (rule split_on_no_sep)
  then show ?thesis by simp
qed

text \<open>
  C5. \<^verbatim>\<open>from_path\<close> on a text: a split on \<^verbatim>\<open>/\<close> that does not give four segments
  fails with \<open>MalformedPath\<close>, and so does a fourth segment that \<^verbatim>\<open>int\<close> refuses;
  otherwise a failure of the kind lookup on the third segment, or else of the rate lookup
  on the integer, is the failure of the call. When both lookups succeed the call goes on to
  construct a sensor: with the id counter from 0 to 255 the new sensor has the kind and
  rate the lookups return, and with the counter above 255 the call fails with
  \<open>IdOutOfRange\<close>. On the encoded path itself, which is a \<^verbatim>\<open>bytearray\<close>, the call fails
  with \<open>TypeError\<close>. The encoded path is two bytes followed by the encoding of the text
  \<^verbatim>\<open>/Meas/<tag>/<rate>\<close>; applied to that text, alone or behind characters none of
  which is \<^verbatim>\<open>/\<close>, and with the counter from 0 to 255, the call gives a sensor with the
  kind and the rate that were encoded. With the counter at 0, \<^verbatim>\<open>/Meas/Gyro/208\<close> gives
  the gyroscope at 208 Hz and \<^verbatim>\<open>/Meas/Gyro/999\<close> fails in the rate lookup.
\<close>

theorem from_path_decodes:
  "(length (split_on CHR ''/'' s) \<noteq> 4 \<longrightarrow> from_path (PStr s) c = (c, Inl MalformedPath))
   \<and> (split_on CHR ''/'' s = [a, b, t, r] \<and> py_int r = None \<longrightarrow>
        from_path (PStr s) c = (c, Inl MalformedPath))
   \<and> (split_on CHR ''/'' s = [a, b, t, r] \<and> py_int r = Some n \<and> from_string (PStr t) = Inl e \<longrightarrow>
        from_path (PStr s) c = (c, Inl e))
   \<and> (split_on CHR ''/'' s = [a, b, t, r] \<and> py_int r = Some n \<and> from_string (PStr t) = Inr K
        \<and> from_int (PInt n) = Inl e \<longrightarrow>
        from_path (PStr s) c = (c, Inl e))
   \<and> (split_on CHR ''/'' s = [a, b, t, r] \<and> py_int r = Some n \<and> from_string (PStr t) = Inr K
        \<and> from_int (PInt n) = Inr R \<and> 0 \<le> c \<and> c \<le> 255 \<longrightarrow>
        from_path (PStr s) c =
           (c + 1, Inr \<lparr>sensor_id = c, sensor_type = PSensorType K,
                         sampling_rate = PSamplingRate R,
                         path = 1 # word_of_int c #
                           map (\<lambda>ch. of_nat (of_char ch))
                             (''/Meas/'' @ type_value K @ ''/'' @ str_int (rate_value R)),
                         data = []\<rparr>))
   \<and> (split_on CHR ''/'' s = [a, b, t, r] \<and> py_int r = Some n \<and> from_string (PStr t) = Inr K
        \<and> from_int (PInt n) = Inr R \<and> 255 < c \<longrightarrow>
        from_path (PStr s) c = (c + 1, Inl IdOutOfRange))
   \<and> from_path (PBytes bs) c = (c, Inl TypeError)
   \<and> (0 \<le> i \<and> i \<le> 255 \<and> 0 \<le> c \<and> c \<le> 255 \<and> CHR ''/'' \<notin> set pre \<longrightarrow>
        subscription_path i (PSensorType K') (PSamplingRate R') =
          Inr ([1, word_of_int i] @ utf8 (''/Meas/'' @ type_value K' @ ''/'' @ str_int (rate_value R')))
        \<and> from_path (PStr (pre @ ''/Meas/'' @ type_value K' @ ''/'' @ str_int (rate_value R'))) c =
           (c + 1, Inr \<lparr>sensor_id = c, sensor_type = PSensorType K',
                         sampling_rate = PSamplingRate R',
                         path = 1 # word_of_int c #
                           map (\<lambda>ch. of_nat (of_char ch))
                             (''/Meas/'' @ type_value K' @ ''/'' @ str_int (rate_value R')),
                         data = []\<rparr>))
   \<and> from_path (PStr ''/Meas/Gyro/208'') 0 =
           (1, Inr \<lparr>sensor_id = 0, sensor_type = PSensorType GYROSCOPE,
                    sampling_rate = PSamplingRate R_208_HZ,
                    path = [1, 0, 47, 77, 101, 97, 115, 47, 71, 121, 114, 111, 47, 50, 48, 56],
                    data = []\<rparr>)
   \<and> from_path (PStr ''/Meas/Gyro/999'') 0 = (0, Inl (UnknownSamplingRate (PInt 999)))"
proof (intro conjI impI)
  assume "length (split_on CHR ''/'' s) \<noteq> 4"
  then show "from_path (PStr s) c = (c, Inl MalformedPath)" by (rule from_path_wrong_count)
next
  assume "split_on CHR ''/'' s = [a, b, t, r] \<and> py_int r = None"
  then show "from_path (PStr s) c = (c, Inl MalformedPath)" by (simp add: from_path_four)
next
  assume "split_on CHR ''/'' s = [a, b, t, r] \<and> py_int r = Some n \<and> from_string (PStr t) = Inl e"
  then show "from_path (PStr s) c = (c, Inl e)" by (simp add: from_path_four init_kind_fails)
next
  assume "split_on CHR ''/'' s = [a, b, t, r] \<and> py_int r = Some n \<and> from_string (PStr t) = Inr K
        \<and> from_int (PInt n) = Inl e"
  then show "from_path (PStr s) c = (c, Inl e)" by (simp add: from_path_four init_rate_fails)
next
  assume h: "split_on CHR ''/'' s = [a, b, t, r] \<and> py_int r = Some n \<and> from_string (PStr t) = Inr K
        \<and> from_int (PInt n) = Inr R \<and> 0 \<le> c \<and> c \<le> 255"
  then have "from_path (PStr s) c = MovesenseSensor_init (PStr t) (PInt n) c"
    by (simp add: from_path_four)
  with h init_succeeds [of t K n R c]
  show "from_path (PStr s) c =
           (c + 1, Inr \<lparr>sensor_id = c, sensor_type = PSensorType K,
                         sampling_rate = PSamplingRate R,
                         path = 1 # word_of_int c #
                           map (\<lambda>ch. of_nat (of_char ch))
                             (''/Meas/'' @ type_value K @ ''/'' @ str_int (rate_value R)),
                         data = []\<rparr>)" by simp
next
  assume h: "split_on CHR ''/'' s = [a, b, t, r] \<and> py_int r = Some n \<and> from_string (PStr t) = Inr K
        \<and> from_int (PInt n) = Inr R \<and> 255 < c"
  then have "from_path (PStr s) c = MovesenseSensor_init (PStr t) (PInt n) c"
    by (simp add: from_path_four)
  with h init_id_out_of_range [of t K n R c]
  show "from_path (PStr s) c = (c + 1, Inl IdOutOfRange)" by simp
next
  show "from_path (PBytes bs) c = (c, Inl TypeError)" by (rule from_path_bytes)
next
  assume "0 \<le> i \<and> i \<le> 255 \<and> 0 \<le> c \<and> c \<le> 255 \<and> CHR ''/'' \<notin> set pre"
  then show "subscription_path i (PSensorType K') (PSamplingRate R') =
          Inr ([1, word_of_int i] @ utf8 (''/Meas/'' @ type_value K' @ ''/'' @ str_int (rate_value R')))"
    by (simp add: encoding_is_prefix_and_text)
next
  assume "0 \<le> i \<and> i \<le> 255 \<and> 0 \<le> c \<and> c \<le> 255 \<and> CHR ''/'' \<notin> set pre"
  then show "from_path (PStr (pre @ ''/Meas/'' @ type_value K' @ ''/'' @ str_int (rate_value R'))) c =
           (c + 1, Inr \<lparr>sensor_id = c, sensor_type = PSensorType K',
                         sampling_rate = PSamplingRate R',
                         path = 1 # word_of_int c #
                           map (\<lambda>ch. of_nat (of_char ch))
                             (''/Meas/'' @ type_value K' @ ''/'' @ str_int (rate_value R')),
                         data = []\<rparr>)"
    using from_path_of_text [of c pre K' R'] by blast
next
  show "from_path (PStr ''/Meas/Gyro/208'') 0 =
           (1, Inr \<lparr>sensor_id = 0, sensor_type = PSensorType GYROSCOPE,
                    sampling_rate = PSamplingRate R_208_HZ,
                    path = [1, 0, 47, 77, 101, 97, 115, 47, 71, 121, 114, 111, 47, 50, 48, 56],
                    data = []\<rparr>)"
    by (rule from_path_gyro_208)
next
  show "from_path (PStr ''/Meas/Gyro/999'') 0 = (0, Inl (UnknownSamplingRate (PInt 999)))"
    by (rule from_path_gyro_999)
qed

theorem from_path_decodes_witness:
  "length (split_on CHR ''/'' ''/Meas/Gyro'') \<noteq> 4
   \<and> from_path (PStr ''/Meas/Gyro'') 0 = (0, Inl MalformedPath)
   \<and> split_on CHR ''/'' ''/Meas/Gyro/fast'' = [[], ''Meas'', ''Gyro'', ''fast'']
   \<and> py_int ''fast'' = None
   \<and> from_path (PStr ''/Meas/Gyro/fast'') 0 = (0, Inl MalformedPath)
   \<and> split_on CHR ''/'' ''/Meas/Foo/13'' = [[], ''Meas'', ''Foo'', ''13'']
   \<and> py_int ''13'' = Some 13
   \<and> from_string (PStr ''Foo'') = Inl (UnknownSensorKind (PStr ''Foo''))
   \<and> from_path (PStr ''/Meas/Foo/13'') 0 = (0, Inl (UnknownSensorKind (PStr ''Foo'')))
   \<and> (0::int) \<le> 5 \<and> (5::int) \<le> 255 \<and> (0::int) \<le> 7 \<and> (7::int) \<le> 255
   \<and> CHR ''/'' \<notin> set [CHR 0x01, CHR 0x05]
   \<and> subscription_path 5 (PSensorType ACCELEROMETER) (PSamplingRate R_13_HZ) =
        Inr ([1, 5] @ utf8 ''/Meas/Acc/13'')
   \<and> from_path (PStr ([CHR 0x01, CHR 0x05] @ ''/Meas/Acc/13'')) 7 =
          (8, Inr \<lparr>sensor_id = 7, sensor_type = PSensorType ACCELEROMETER,
                   sampling_rate = PSamplingRate R_13_HZ,
                   path = [1, 7, 47, 77, 101, 97, 115, 47, 65, 99, 99, 47, 49, 51], data = []\<rparr>)
   \<and> split_on CHR ''/'' ''/Meas/Acc/13'' = [[], ''Meas'', ''Acc'', ''13'']
   \<and> from_string (PStr ''Acc'') = Inr ACCELEROMETER
   \<and> from_int (PInt 13) = Inr R_13_HZ
   \<and> from_path (PStr ''/Meas/Acc/13'') 7 =
          (8, Inr \<lparr>sensor_id = 7, sensor_type = PSensorType ACCELEROMETER,
                   sampling_rate = PSamplingRate R_13_HZ,
                   path = [1, 7, 47, 77, 101, 97, 115, 47, 65, 99, 99, 47, 49, 51], data = []\<rparr>)
   \<and> (255::int) < 300
   \<and> from_path (PStr ''/Meas/Acc/13'') 300 = (301, Inl IdOutOfRange)
   \<and> split_on CHR ''/'' (''/Meas/Gyro/'' @ replicate 4301 CHR ''1'') =
        [[], ''Meas'', ''Gyro'', replicate 4301 CHR ''1'']
   \<and> py_int (replicate 4301 CHR ''1'') = None
   \<and> from_path (PStr (''/Meas/Gyro/'' @ replicate 4301 CHR ''1'')) 0 = (0, Inl MalformedPath)"
proof -
  have a1: "length (split_on CHR ''/'' ''/Meas/Gyro'') \<noteq> 4" by simp
  have a2: "from_path (PStr ''/Meas/Gyro'') 0 = (0, Inl MalformedPath)"
    using from_path_decodes [where s = "''/Meas/Gyro''" and c = 0] a1 by blast
  have b1: "split_on CHR ''/'' ''/Meas/Gyro/fast'' = [[], ''Meas'', ''Gyro'', ''fast'']" by simp
  have b2: "py_int ''fast'' = None" by code_simp
  have b3: "from_path (PStr ''/Meas/Gyro/fast'') 0 = (0, Inl MalformedPath)"
    using from_path_decodes [where s = "''/Meas/Gyro/fast''" and c = 0 and a = "[]" and b = "''Meas''"
        and t = "''Gyro''" and r = "''fast''"] b1 b2 by blast
  have c1: "split_on CHR ''/'' ''/Meas/Foo/13'' = [[], ''Meas'', ''Foo'', ''13'']" by simp
  have c2: "py_int ''13'' = Some 13" by code_simp
  have c3: "from_string (PStr ''Foo'') = Inl (UnknownSensorKind (PStr ''Foo''))"
    by (simp add: from_string_def sensor_type_members_def)
  have c4: "from_path (PStr ''/Meas/Foo/13'') 0 = (0, Inl (UnknownSensorKind (PStr ''Foo'')))"
    using from_path_decodes [where s = "''/Meas/Foo/13''" and c = 0 and a = "[]" and b = "''Meas''"
        and t = "''Foo''" and r = "''13''" and n = 13 and e = "UnknownSensorKind (PStr ''Foo'')"]
      c1 c2 c3 by blast
  have d0: "str_int 13 = ''13''" by code_simp
  have d1: "CHR ''/'' \<notin> set [CHR 0x01, CHR 0x05]" by simp
  have d2: "subscription_path 5 (PSensorType ACCELEROMETER) (PSamplingRate R_13_HZ) =
        Inr ([1, 5] @ utf8 ''/Meas/Acc/13'')
      \<and> from_path (PStr ([CHR 0x01, CHR 0x05] @ ''/Meas/Acc/13'')) 7 =
          (8, Inr \<lparr>sensor_id = 7, sensor_type = PSensorType ACCELEROMETER,
                   sampling_rate = PSamplingRate R_13_HZ,
                   path = [1, 7, 47, 77, 101, 97, 115, 47, 65, 99, 99, 47, 49, 51], data = []\<rparr>)"
    using from_path_decodes [where i = 5 and c = 7 and K' = ACCELEROMETER and R' = R_13_HZ
        and pre = "[CHR 0x01, CHR 0x05]"] d1 by (simp add: d0)
  have e1: "split_on CHR ''/'' ''/Meas/Acc/13'' = [[], ''Meas'', ''Acc'', ''13'']" by simp
  have e2: "from_string (PStr ''Acc'') = Inr ACCELEROMETER"
    using from_string_own_tag [of ACCELEROMETER] by simp
  have e3: "from_int (PInt 13) = Inr R_13_HZ"
    using from_int_own_value [of R_13_HZ] by simp
  have e4: "from_path (PStr ''/Meas/Acc/13'') 7 =
          (8, Inr \<lparr>sensor_id = 7, sensor_type = PSensorType ACCELEROMETER,
                   sampling_rate = PSamplingRate R_13_HZ,
                   path = [1, 7, 47, 77, 101, 97, 115, 47, 65, 99, 99, 47, 49, 51], data = []\<rparr>)"
    using from_path_decodes [where s = "''/Meas/Acc/13''" and c = 7 and a = "[]" and b = "''Meas''"
        and t = "''Acc''" and r = "''13''" and n = 13 and K = ACCELEROMETER and R = R_13_HZ]
      e1 c2 e2 e3 by (simp add: d0)
  have e5: "from_path (PStr ''/Meas/Acc/13'') 300 = (301, Inl IdOutOfRange)"
    using from_path_decodes [where s = "''/Meas/Acc/13''" and c = 300 and a = "[]" and b = "''Meas''"
        and t = "''Acc''" and r = "''13''" and n = 13 and K = ACCELEROMETER and R = R_13_HZ]
      e1 c2 e2 e3 by simp
  have l: "int_max_str_digits < 4301" by (simp add: int_max_str_digits_def)
  have f1: "split_on CHR ''/'' (''/Meas/Gyro/'' @ replicate 4301 CHR ''1'') =
        [[], ''Meas'', ''Gyro'', replicate 4301 CHR ''1'']"
    by (rule split_many_digits)
  have f2: "py_int (replicate 4301 CHR ''1'') = None"
    by (rule py_int_too_many_digits [OF l])
  have f3: "from_path (PStr (''/Meas/Gyro/'' @ replicate 4301 CHR ''1'')) 0 = (0, Inl MalformedPath)"
    using from_path_decodes [where s = "''/Meas/Gyro/'' @ replicate 4301 CHR ''1''" and c = 0
        and a = "[]" and b = "''Meas''" and t = "''Gyro''" and r = "replicate 4301 CHR ''1''"]
      f1 f2 by blast
  have z1: "(0::int) \<le> 5" and z2: "(5::int) \<le> 255" and z3: "(0::int) \<le> 7"
    and z4: "(7::int) \<le> 255" and z5: "(255::int) < 300" by simp_all
  note d2a = d2 [THEN conjunct1] and d2b = d2 [THEN conjunct2]
  show ?thesis
    by (intro conjI) (rule a1 a2 b1 b2 b3 c1 c2 c3 c4 z1 z2 z3 z4 z5 d1 d2a d2b e1 e2 e3 e4 e5 f1 f2 f3)+
qed

text \<open>
  Three inputs on which the decoding of an encoded path does not give back the kind and the
  rate. The path that the constructor stores for the gyroscope at 208 Hz is a
  \<^verbatim>\<open>bytearray\<close>, and \<^verbatim>\<open>from_path\<close> refuses it. The path of the sensor with id 47
  carries the separator as its id byte, so that read as a text it has five segments. And
  the well-formed text \<^verbatim>\<open>/Meas/Gyro/208\<close>, on which both lookups succeed, fails in a
  process whose id counter has reached 256, in the construction of the new sensor's own
  path.
\<close>

theorem from_path_counter_exhausted:
  "MovesenseSensor_init (PStr ''Gyro'') (PInt 208) 0 =
      (1, Inr \<lparr>sensor_id = 0, sensor_type = PSensorType GYROSCOPE,
               sampling_rate = PSamplingRate R_208_HZ,
               path = [1, 0, 47, 77, 101, 97, 115, 47, 71, 121, 114, 111, 47, 50, 48, 56],
               data = []\<rparr>)
   \<and> from_path (PBytes [1, 0, 47, 77, 101, 97, 115, 47, 71, 121, 114, 111, 47, 50, 48, 56]) 1 =
      (1, Inl TypeError)
   \<and> MovesenseSensor_init (PStr ''Gyro'') (PInt 208) 47 =
      (48, Inr \<lparr>sensor_id = 47, sensor_type = PSensorType GYROSCOPE,
                sampling_rate = PSamplingRate R_208_HZ,
                path = [1, 47, 47, 77, 101, 97, 115, 47, 71, 121, 114, 111, 47, 50, 48, 56],
                data = []\<rparr>)
   \<and> from_path (PStr ([CHR 0x01, CHR ''/''] @ ''/Meas/Gyro/208'')) 48 = (48, Inl MalformedPath)
   \<and> split_on CHR ''/'' ''/Meas/Gyro/208'' = [[], ''Meas'', ''Gyro'', ''208'']
   \<and> py_int ''208'' = Some 208
   \<and> from_string (PStr ''Gyro'') = Inr GYROSCOPE
   \<and> from_int (PInt 208) = Inr R_208_HZ
   \<and> from_path (PStr ''/Meas/Gyro/208'') 256 = (257, Inl IdOutOfRange)"
proof -
  have s: "split_on CHR ''/'' ''/Meas/Gyro/208'' = [[], ''Meas'', ''Gyro'', ''208'']" by simp
  have n: "py_int ''208'' = Some 208" by code_simp
  have k: "from_string (PStr ''Gyro'') = Inr GYROSCOPE"
    using from_string_own_tag [of GYROSCOPE] by simp
  have r: "from_int (PInt 208) = Inr R_208_HZ"
    using from_int_own_value [of R_208_HZ] by simp
  have i0: "MovesenseSensor_init (PStr ''Gyro'') (PInt 208) 0 =
      (1, Inr \<lparr>sensor_id = 0, sensor_type = PSensorType GYROSCOPE,
               sampling_rate = PSamplingRate R_208_HZ,
               path = [1, 0, 47, 77, 101, 97, 115, 47, 71, 121, 114, 111, 47, 50, 48, 56],
               data = []\<rparr>)"
    using init_succeeds [OF k r, of 0] by (simp add: str_int_208)
  have i47: "MovesenseSensor_init (PStr ''Gyro'') (PInt 208) 47 =
      (48, Inr \<lparr>sensor_id = 47, sensor_type = PSensorType GYROSCOPE,
                sampling_rate = PSamplingRate R_208_HZ,
                path = [1, 47, 47, 77, 101, 97, 115, 47, 71, 121, 114, 111, 47, 50, 48, 56],
                data = []\<rparr>)"
    using init_succeeds [OF k r, of 47] by (simp add: str_int_208)
  have five: "length (split_on CHR ''/'' ([CHR 0x01, CHR ''/''] @ ''/Meas/Gyro/208'')) \<noteq> 4"
    by simp
  have t47: "from_path (PStr ([CHR 0x01, CHR ''/''] @ ''/Meas/Gyro/208'')) 48 = (48, Inl MalformedPath)"
    by (rule from_path_wrong_count [OF five])
  have "from_path (PStr ''/Meas/Gyro/208'') 256 = MovesenseSensor_init (PStr ''Gyro'') (PInt 208) 256"
    by (simp add: from_path_four [OF s] n)
  with init_id_out_of_range [OF k r, of 256] s n k r i0 i47 t47 from_path_bytes
  show ?thesis by simp
qed

section \<open>The id counter\<close>

lemma init_counter:
  "MovesenseSensor_init st sr c = (c', res) \<Longrightarrow>
     c \<le> c' \<and> (\<forall>s. res = Inr s \<longrightarrow> sensor_id s = c \<and> c' = c + 1)"
  by (auto simp add: MovesenseSensor_init_def split: sum.splits)

lemma from_path_counter:
  "from_path p c = (c', res) \<Longrightarrow>
     c \<le> c' \<and> (\<forall>s. res = Inr s \<longrightarrow> sensor_id s = c \<and> c' = c + 1)"
  by (auto simp add: from_path_def split: pyval.splits list.splits option.splits dest: init_counter)

lemma perform_counter:
  "perform r c = (c', res) \<Longrightarrow>
     c \<le> c' \<and> (\<forall>s. res = Inr s \<longrightarrow> sensor_id s = c \<and> c' = c + 1)"
  by (cases r) (simp_all add: init_counter from_path_counter)

lemma created_ids_lower: "i \<in> set (created_ids (construct_all rs c)) \<Longrightarrow> c \<le> i"
proof (induction rs arbitrary: c)
  case Nil
  then show ?case by simp
next
  case (Cons r rs)
  obtain c' res where p: "perform r c = (c', res)" by (cases "perform r c")
  from perform_counter [OF p] have le: "c \<le> c'"
    and ok: "\<And>s. res = Inr s \<Longrightarrow> sensor_id s = c \<and> c' = c + 1" by auto
  show ?case
  proof (cases res)
    case (Inl e)
    with Cons.prems p have "i \<in> set (created_ids (construct_all rs c'))" by simp
    from Cons.IH [OF this] le show ?thesis by simp
  next
    case (Inr s)
    with Cons.prems p have "i = sensor_id s \<or> i \<in> set (created_ids (construct_all rs c'))" by simp
    then show ?thesis
    proof
      assume "i = sensor_id s" with ok [OF Inr] show ?thesis by simp
    next
      assume "i \<in> set (created_ids (construct_all rs c'))"
      from Cons.IH [OF this] le show ?thesis by simp
    qed
  qed
qed

lemma created_ids_increasing: "sorted_wrt (<) (created_ids (construct_all rs c))"
proof (induction rs arbitrary: c)
  case Nil
  then show ?case by simp
next
  case (Cons r rs)
  obtain c' res where p: "perform r c = (c', res)" by (cases "perform r c")
  from perform_counter [OF p] have le: "c \<le> c'"
    and ok: "\<And>s. res = Inr s \<Longrightarrow> sensor_id s = c \<and> c' = c + 1" by auto
  show ?case
  proof (cases res)
    case (Inl e)
    with p Cons.IH [of c'] show ?thesis by simp
  next
    case (Inr s)
    have "\<And>i. i \<in> set (created_ids (construct_all rs c')) \<Longrightarrow> sensor_id s < i"
      using created_ids_lower [of _ rs c'] ok [OF Inr] by fastforce
    with Inr p Cons.IH [of c'] show ?thesis by simp
  qed
qed

lemma created_ids_all_succeed:
  "list_all succeeded (construct_all rs c) \<Longrightarrow>
   created_ids (construct_all rs c) = map (\<lambda>k. c + int k) [0..<length rs]"
proof (induction rs arbitrary: c)
  case Nil
  then show ?case by simp
next
  case (Cons r rs)
  obtain c' res where p: "perform r c = (c', res)" by (cases "perform r c")
  with Cons.prems obtain s where s: "res = Inr s" and rest: "list_all succeeded (construct_all rs c')"
    by (cases res) auto
  from perform_counter [OF p] s have id: "sensor_id s = c" and c': "c' = c + 1" by auto
  have "[0..<length (r # rs)] = 0 # map Suc [0..<length rs]"
    by (simp add: upt_conv_Cons map_Suc_upt del: upt_Suc)
  then have "map (\<lambda>k. c + int k) [0..<length (r # rs)] = c # map (\<lambda>k. c' + int k) [0..<length rs]"
    by (simp add: c' comp_def)
  with p s id Cons.IH [OF rest] show ?case by simp
qed

text \<open>
  C9. Whatever constructions a process performs from the initial counter 0, by the
  constructor or by \<^verbatim>\<open>from_path\<close>, failing or not, the ids of the sensors it obtains, in
  the order of construction, are strictly increasing, hence pairwise distinct, and not
  negative; when every construction succeeds they are 0, 1, 2 and so on.
\<close>

theorem ids_strictly_increasing_from_zero:
  "sorted_wrt (<) (created_ids (construct_all rs 0))
   \<and> distinct (created_ids (construct_all rs 0))
   \<and> (\<forall>i \<in> set (created_ids (construct_all rs 0)). 0 \<le> i)
   \<and> (list_all succeeded (construct_all rs 0) \<longrightarrow>
        created_ids (construct_all rs 0) = map int [0..<length rs])"
proof -
  have s: "sorted_wrt (<) (created_ids (construct_all rs 0))" by (rule created_ids_increasing)
  then have d: "distinct (created_ids (construct_all rs 0))"
    using strict_sorted_iff by blast
  have l: "\<forall>i \<in> set (created_ids (construct_all rs 0)). 0 \<le> i"
    using created_ids_lower by blast
  have a: "list_all succeeded (construct_all rs 0) \<longrightarrow>
        created_ids (construct_all rs 0) = map int [0..<length rs]"
    using created_ids_all_succeed [of rs 0] by simp
  from s d l a show ?thesis by blast
qed

theorem ids_strictly_increasing_from_zero_witness:
  "list_all succeeded (construct_all [Construct (PStr ''Acc'') (PInt 13), FromPath (PStr ''/Meas/Gyro/208''),
        Construct (PStr ''IMU'') (PInt 52)] 0)
   \<and> created_ids (construct_all [Construct (PStr ''Acc'') (PInt 13), FromPath (PStr ''/Meas/Gyro/208''),
        Construct (PStr ''IMU'') (PInt 52)] 0) = [0, 1, 2]
   \<and> (0::int) \<in> set (created_ids (construct_all [Construct (PStr ''Acc'') (PInt 13),
        FromPath (PStr ''/Meas/Gyro/208''), Construct (PStr ''IMU'') (PInt 52)] 0))"
proof -
  let ?rs = "[Construct (PStr ''Acc'') (PInt 13), FromPath (PStr ''/Meas/Gyro/208''),
        Construct (PStr ''IMU'') (PInt 52)]"
  have ok: "list_all succeeded (construct_all ?rs 0)" by code_simp
  with ids_strictly_increasing_from_zero [of ?rs] have "created_ids (construct_all ?rs 0) = map int [0..<length ?rs]" by blast
  moreover have "map int [0..<length ?rs] = [0, 1, 2]" by code_simp
  ultimately have "created_ids (construct_all ?rs 0) = [0, 1, 2]" by simp
  with ok show ?thesis by simp
qed

section \<open>The decoder\<close>

lemma append_samples_eq:
  "append_samples ts dev tag irs entries =
     entries @ map (\<lambda>(i, row). \<lparr>timestamp = ts ! i, device = dev, sample_sensor_type = tag,
                                 sensor_data = row\<rparr>) irs"
  by (induction irs arbitrary: entries) auto

lemma rows_of_multiple:
  "0 < a \<Longrightarrow> length xs = k * a \<Longrightarrow> rows_of a xs = map (\<lambda>i. take a (drop (i * a) xs)) [0..<k]"
proof (induction k arbitrary: xs)
  case 0
  then show ?case by (simp add: rows_of.simps)
next
  case (Suc k)
  then have ne: "xs \<noteq> []" by auto
  from Suc.prems have len: "length (drop a xs) = k * a" by simp
  have "rows_of a xs = take a xs # rows_of a (drop a xs)"
    using Suc.prems(1) ne by (subst rows_of.simps) simp
  also have "rows_of a (drop a xs) = map (\<lambda>i. take a (drop (i * a) (drop a xs))) [0..<k]"
    by (rule Suc.IH [OF Suc.prems(1) len])
  also have "\<dots> = map (\<lambda>i. take a (drop (Suc i * a) xs)) [0..<k]"
    by (simp add: add.commute)
  also have "take a xs # \<dots> = map (\<lambda>i. take a (drop (i * a) xs)) (0 # map Suc [0..<k])"
    by (simp add: comp_def)
  also have "0 # map Suc [0..<k] = [0..<Suc k]"
    by (simp add: upt_conv_Cons map_Suc_upt del: upt_Suc)
  finally show ?case .
qed

lemma length_linspace: "length (linspace a b n) = n"
  by (simp add: linspace_def)

lemma enumerate_rows:
  "map (\<lambda>(i, row). g i row) (enumerate 0 (map f [0..<k])) = map (\<lambda>i. g i (f i)) [0..<k]"
  by (rule nth_equalityI) (simp_all add: enumerate_eq_zip)

lemma axes_positive: "0 < axes K"
  by (cases K) simp_all

lemma handler_rows:
  assumes "sensor_type self = PSensorType K" "sampling_rate self = PSamplingRate R"
    and "length buf = k * axes K"
  shows "notification_handler now self dev buf =
     (self\<lparr>data := data self @
        map (\<lambda>i. \<lparr>timestamp = map (\<lambda>x. x + now)
                                (linspace (- (1 / real_of_int (rate_value R)) * real k) 0 k) ! i,
                   device = dev, sample_sensor_type = type_value K,
                   sensor_data = take (axes K) (drop (i * axes K) buf)\<rparr>) [0..<k]\<rparr>, None)"
proof -
  have rows: "rows_of (axes K) buf = map (\<lambda>i. take (axes K) (drop (i * axes K) buf)) [0..<k]"
    by (rule rows_of_multiple [OF axes_positive assms(3)])
  have "reshape (axes K) buf = Inr (map (\<lambda>i. take (axes K) (drop (i * axes K) buf)) [0..<k])"
    using axes_positive [of K] assms(3) by (simp add: reshape_def rows)
  then show ?thesis
    using assms(1,2) by (simp add: notification_handler_def append_samples_eq enumerate_rows)
qed

lemma handler_misshaped:
  "sensor_type self = PSensorType K \<Longrightarrow> length buf mod axes K \<noteq> 0 \<Longrightarrow>
   notification_handler now self dev buf = (self, Some MalformedBuffer)"
  by (simp add: notification_handler_def reshape_def)

lemma handler_appends:
  "notification_handler now self dev buf = (self', res) \<Longrightarrow>
   (\<exists>new. self' = self\<lparr>data := data self @ new\<rparr>) \<and> (res \<noteq> None \<longrightarrow> self' = self)"
  by (auto simp add: notification_handler_def append_samples_eq Let_def
      split: pyval.splits sum.splits intro: exI [of _ "[]"])

text \<open>
  C2. For a sensor of kind \<open>K\<close> and a buffer of \<open>k\<close> times the axis count of \<open>K\<close>
  entries, one call succeeds and appends exactly \<open>k\<close> samples to the log; the sample of
  row \<open>i\<close> holds the entries \<open>i * axes K\<close> up to \<open>(i + 1) * axes K - 1\<close> of the buffer in
  their order, the device address of the call, and the tag of \<open>K\<close>.
\<close>

theorem decode_appends_rows:
  assumes "sensor_type self = PSensorType K" and "sampling_rate self = PSamplingRate R"
    and "length buf = k * axes K"
  shows "\<exists>new. notification_handler now self dev buf = (self\<lparr>data := data self @ new\<rparr>, None)
           \<and> length new = k
           \<and> map (\<lambda>s. (device s, sample_sensor_type s, sensor_data s)) new =
               map (\<lambda>i. (dev, type_value K, take (axes K) (drop (i * axes K) buf))) [0..<k]"
proof -
  let ?new = "map (\<lambda>i. \<lparr>timestamp = map (\<lambda>x. x + now)
                                (linspace (- (1 / real_of_int (rate_value R)) * real k) 0 k) ! i,
                   device = dev, sample_sensor_type = type_value K,
                   sensor_data = take (axes K) (drop (i * axes K) buf)\<rparr>) [0..<k]"
  have "notification_handler now self dev buf = (self\<lparr>data := data self @ ?new\<rparr>, None)"
    by (rule handler_rows [OF assms])
  moreover have "length ?new = k" by simp
  moreover have "map (\<lambda>s. (device s, sample_sensor_type s, sensor_data s)) ?new =
               map (\<lambda>i. (dev, type_value K, take (axes K) (drop (i * axes K) buf))) [0..<k]"
    by (simp add: comp_def)
  ultimately show ?thesis by blast
qed

theorem decode_appends_rows_witness:
  "sensor_type \<lparr>sensor_id = 0, sensor_type = PSensorType ACCELEROMETER,
      sampling_rate = PSamplingRate R_104_HZ, path = [1, 0], data = []\<rparr> = PSensorType ACCELEROMETER
   \<and> sampling_rate \<lparr>sensor_id = 0, sensor_type = PSensorType ACCELEROMETER,
      sampling_rate = PSamplingRate R_104_HZ, path = [1, 0], data = []\<rparr> = PSamplingRate R_104_HZ
   \<and> length [1, 2, 3, 4, 5, 6 :: real] = 2 * axes ACCELEROMETER
   \<and> (\<exists>new. notification_handler 1000 \<lparr>sensor_id = 0, sensor_type = PSensorType ACCELEROMETER,
              sampling_rate = PSamplingRate R_104_HZ, path = [1, 0], data = []\<rparr>
              ''0C:8C:DC:00:00:01'' [1, 2, 3, 4, 5, 6]
            = (\<lparr>sensor_id = 0, sensor_type = PSensorType ACCELEROMETER,
                 sampling_rate = PSamplingRate R_104_HZ, path = [1, 0], data = new\<rparr>, None)
          \<and> length new = 2
          \<and> map (\<lambda>s. (device s, sample_sensor_type s, sensor_data s)) new =
              [(''0C:8C:DC:00:00:01'', ''Acc'', [1, 2, 3]), (''0C:8C:DC:00:00:01'', ''Acc'', [4, 5, 6])])"
proof -
  let ?s = "\<lparr>sensor_id = 0, sensor_type = PSensorType ACCELEROMETER,
      sampling_rate = PSamplingRate R_104_HZ, path = [1, 0], data = []\<rparr>"
  have h1: "sensor_type ?s = PSensorType ACCELEROMETER" by simp
  have h2: "sampling_rate ?s = PSamplingRate R_104_HZ" by simp
  have h3: "length [1, 2, 3, 4, 5, 6 :: real] = 2 * axes ACCELEROMETER" by simp
  have u: "[0..<2] = [0, Suc 0]" by (simp add: upt_rec)
  from decode_appends_rows [OF h1 h2 h3, of 1000 "''0C:8C:DC:00:00:01''"]
  show ?thesis by (simp add: u)
qed

text \<open>
  C6. A buffer whose length the axis count does not divide makes the call fail with
  \<open>MalformedBuffer\<close> and leaves the sensor as it was. Whatever the call does, the id, the
  kind, the rate and the path of the sensor are unchanged and the log after the call is the
  log before it with samples appended at its end; after a failure the sensor is unchanged.
\<close>

theorem decode_failure_appends_nothing:
  "(sensor_type self = PSensorType K \<and> length buf mod axes K \<noteq> 0 \<longrightarrow>
      notification_handler now self dev buf = (self, Some MalformedBuffer))
   \<and> (notification_handler now self dev buf = (self', res) \<longrightarrow>
        sensor_id self' = sensor_id self \<and> sensor_type self' = sensor_type self
        \<and> sampling_rate self' = sampling_rate self \<and> path self' = path self
        \<and> (\<exists>new. data self' = data self @ new)
        \<and> (res \<noteq> None \<longrightarrow> self' = self))"
proof (intro conjI impI)
  assume "sensor_type self = PSensorType K \<and> length buf mod axes K \<noteq> 0"
  then show "notification_handler now self dev buf = (self, Some MalformedBuffer)"
    by (simp add: handler_misshaped)
next
  assume h: "notification_handler now self dev buf = (self', res)"
  from handler_appends [OF h] obtain new where n: "self' = self\<lparr>data := data self @ new\<rparr>"
    and f: "res \<noteq> None \<longrightarrow> self' = self" by blast
  from n show "sensor_id self' = sensor_id self" by simp
  from n show "sensor_type self' = sensor_type self" by simp
  from n show "sampling_rate self' = sampling_rate self" by simp
  from n show "path self' = path self" by simp
  from n show "\<exists>new. data self' = data self @ new" by simp
  assume "res \<noteq> None"
  with f show "self' = self" by simp
qed

text \<open>
  C10. A buffer of exactly one sample, decoded at arrival time \<open>now\<close> by a sensor of rate
  \<open>R\<close>, appends one sample whose time stamp is \<open>now - 1 / R\<close>.
\<close>

theorem single_sample_timestamp:
  assumes "sensor_type self = PSensorType K" and "sampling_rate self = PSamplingRate R"
    and "length buf = axes K"
  shows "notification_handler now self dev buf =
     (self\<lparr>data := data self @
        [\<lparr>timestamp = now - 1 / real_of_int (rate_value R), device = dev,
          sample_sensor_type = type_value K, sensor_data = buf\<rparr>]\<rparr>, None)"
proof -
  from assms(3) have "length buf = 1 * axes K" by simp
  from handler_rows [OF assms(1,2) this, of now dev] assms(3)
  show ?thesis by (simp add: linspace_def)
qed

theorem decode_failure_appends_nothing_witness:
  "sensor_type \<lparr>sensor_id = 3, sensor_type = PSensorType ACCELEROMETER,
      sampling_rate = PSamplingRate R_104_HZ, path = [1, 3],
      data = [\<lparr>timestamp = 999, device = ''d'', sample_sensor_type = ''Acc'',
               sensor_data = [7, 8, 9]\<rparr>]\<rparr> = PSensorType ACCELEROMETER
   \<and> length [1, 2, 3, 4, 5 :: real] mod axes ACCELEROMETER \<noteq> 0
   \<and> notification_handler 1000 \<lparr>sensor_id = 3, sensor_type = PSensorType ACCELEROMETER,
      sampling_rate = PSamplingRate R_104_HZ, path = [1, 3],
      data = [\<lparr>timestamp = 999, device = ''d'', sample_sensor_type = ''Acc'',
               sensor_data = [7, 8, 9]\<rparr>]\<rparr> ''d'' [1, 2, 3, 4, 5]
     = (\<lparr>sensor_id = 3, sensor_type = PSensorType ACCELEROMETER,
      sampling_rate = PSamplingRate R_104_HZ, path = [1, 3],
      data = [\<lparr>timestamp = 999, device = ''d'', sample_sensor_type = ''Acc'',
               sensor_data = [7, 8, 9]\<rparr>]\<rparr>, Some MalformedBuffer)
   \<and> (\<exists>new. data (fst (notification_handler 1000 \<lparr>sensor_id = 3, sensor_type = PSensorType ACCELEROMETER,
      sampling_rate = PSamplingRate R_104_HZ, path = [1, 3],
      data = [\<lparr>timestamp = 999, device = ''d'', sample_sensor_type = ''Acc'',
               sensor_data = [7, 8, 9]\<rparr>]\<rparr> ''d'' [1, 2, 3]))
       = [\<lparr>timestamp = 999, device = ''d'', sample_sensor_type = ''Acc'',
               sensor_data = [7, 8, 9]\<rparr>] @ new)"
proof -
  let ?s = "\<lparr>sensor_id = 3, sensor_type = PSensorType ACCELEROMETER,
      sampling_rate = PSamplingRate R_104_HZ, path = [1, 3],
      data = [\<lparr>timestamp = 999, device = ''d'', sample_sensor_type = ''Acc'',
               sensor_data = [7, 8, 9]\<rparr>]\<rparr>"
  have h1: "sensor_type ?s = PSensorType ACCELEROMETER" by simp
  have h2: "length [1, 2, 3, 4, 5 :: real] mod axes ACCELEROMETER \<noteq> 0" by simp
  have a: "notification_handler 1000 ?s ''d'' [1, 2, 3, 4, 5] = (?s, Some MalformedBuffer)"
    using decode_failure_appends_nothing [of ?s ACCELEROMETER "[1, 2, 3, 4, 5]" 1000 "''d''"] h1 h2 by blast
  obtain s' res where r: "notification_handler 1000 ?s ''d'' [1, 2, 3] = (s', res)"
    by (cases "notification_handler 1000 ?s ''d'' [1, 2, 3]")
  with decode_failure_appends_nothing [of ?s _ "[1, 2, 3]" 1000 "''d''" s' res]
  have "\<exists>new. data s' = data ?s @ new" by blast
  with r have b: "\<exists>new. data (fst (notification_handler 1000 ?s ''d'' [1, 2, 3])) = data ?s @ new"
    by simp
  from h1 h2 a b show ?thesis by simp
qed

theorem single_sample_timestamp_witness:
  "sensor_type \<lparr>sensor_id = 0, sensor_type = PSensorType ECG,
      sampling_rate = PSamplingRate R_125_HZ, path = [1, 0], data = []\<rparr> = PSensorType ECG
   \<and> sampling_rate \<lparr>sensor_id = 0, sensor_type = PSensorType ECG,
      sampling_rate = PSamplingRate R_125_HZ, path = [1, 0], data = []\<rparr> = PSamplingRate R_125_HZ
   \<and> length [0.5 :: real] = axes ECG
   \<and> notification_handler 1000 \<lparr>sensor_id = 0, sensor_type = PSensorType ECG,
      sampling_rate = PSamplingRate R_125_HZ, path = [1, 0], data = []\<rparr> ''d'' [0.5]
     = (\<lparr>sensor_id = 0, sensor_type = PSensorType ECG,
      sampling_rate = PSamplingRate R_125_HZ, path = [1, 0],
      data = [\<lparr>timestamp = 1000 - 1 / 125, device = ''d'', sample_sensor_type = ''ECG'',
               sensor_data = [0.5]\<rparr>]\<rparr>, None)"
proof -
  let ?s = "\<lparr>sensor_id = 0, sensor_type = PSensorType ECG,
      sampling_rate = PSamplingRate R_125_HZ, path = [1, 0], data = []\<rparr>"
  have h1: "sensor_type ?s = PSensorType ECG" by simp
  have h2: "sampling_rate ?s = PSamplingRate R_125_HZ" by simp
  have h3: "length [0.5 :: real] = axes ECG" by simp
  from single_sample_timestamp [OF h1 h2 h3, of 1000 "''d''"] show ?thesis by simp
qed

lemma linspace_nth:
  assumes "2 \<le> n" "i < n"
  shows "linspace a 0 n ! i = a * (real (n - 1 - i) / real (n - 1))"
proof (cases "i < n - 1")
  case True
  with assms have "linspace a 0 n ! i = a + real i * ((0 - a) / real (n - 1))"
    by (simp add: linspace_def nth_append)
  also have "\<dots> = a * (real (n - 1 - i) / real (n - 1))"
    using True assms by (simp add: field_simps)
  finally show ?thesis .
next
  case False
  with assms have "i = n - 1" by simp
  with assms show ?thesis by (simp add: linspace_def nth_append)
qed

lemma decode_timestamps:
  assumes "sensor_type self = PSensorType K" and "sampling_rate self = PSamplingRate R"
    and "length buf = k * axes K" and "2 \<le> k"
  shows "map timestamp (drop (length (data self)) (data (fst (notification_handler now self dev buf)))) =
     map (\<lambda>i. now - real k / real_of_int (rate_value R) * (real (k - 1 - i) / real (k - 1))) [0..<k]"
proof -
  have "\<And>i. i < k \<Longrightarrow>
      map (\<lambda>x. x + now) (linspace (- (1 / real_of_int (rate_value R)) * real k) 0 k) ! i
      = now - real k / real_of_int (rate_value R) * (real (k - 1 - i) / real (k - 1))"
    using assms(4) by (simp add: length_linspace linspace_nth)
  then show ?thesis
    by (simp add: handler_rows [OF assms(1-3)] comp_def)
qed

text \<open>
  C1. Row \<open>i\<close> of \<open>n\<close> does not get the time stamp \<open>now - (1 / R) * (n - 1 - i)\<close>. The
  source computes the sampling period \<open>T_s = 1 / R\<close> and takes
  \<^verbatim>\<open>np.linspace(-T_s * n, 0, n)\<close>, whose \<open>n\<close> values span \<open>n\<close> periods with both ends
  included: by \<open>decode_timestamps\<close> row \<open>i\<close> gets
  \<open>now - (n / R) * ((n - 1 - i) / (n - 1))\<close>, so that consecutive rows are
  \<open>n / ((n - 1) * R)\<close> apart instead of \<open>1 / R\<close>. Evaluated for the accelerometer at
  104 Hz, two samples and arrival time 1000: the first sample is stamped \<open>1000 - 2 / 104\<close>,
  not \<open>1000 - 1 / 104\<close>.
\<close>

theorem timestamps_of_two_samples:
  "map timestamp (data (fst (notification_handler 1000
      \<lparr>sensor_id = 0, sensor_type = PSensorType ACCELEROMETER,
       sampling_rate = PSamplingRate R_104_HZ, path = [1, 0], data = []\<rparr>
      ''d'' [1, 2, 3, 4, 5, 6]))) = [1000 - 2 / 104, 1000]
   \<and> (1000 - 2 / 104 :: real) \<noteq> 1000 - 1 / 104"
proof -
  let ?s = "\<lparr>sensor_id = 0, sensor_type = PSensorType ACCELEROMETER,
       sampling_rate = PSamplingRate R_104_HZ, path = [1, 0], data = []\<rparr>"
  have h1: "sensor_type ?s = PSensorType ACCELEROMETER" by simp
  have h2: "sampling_rate ?s = PSamplingRate R_104_HZ" by simp
  have h3: "length [1, 2, 3, 4, 5, 6 :: real] = 2 * axes ACCELEROMETER" by simp
  have u: "[0..<2] = [0, Suc 0]" by (simp add: upt_rec)
  from decode_timestamps [OF h1 h2 h3, of 1000 "''d''"]
  show ?thesis by (simp add: u)
qed

end
